theory Spec2Isabelle
  imports Main
begin

section \<open>Text helpers\<close>

text \<open>
  Strings are byte lists (UTF-8). Numbers that reach a template literal or \<open>String(...)\<close>
  are integers here (identifiers and list lengths), written in decimal as JavaScript does.
\<close>

definition digit_char :: "nat \<Rightarrow> char" where
  "digit_char d = char_of (48 + d)"

function show_nat :: "nat \<Rightarrow> string" where
  "show_nat n = (if n < 10 then [digit_char n] else show_nat (n div 10) @ [digit_char (n mod 10)])"
  by pat_completeness auto
termination
  by (relation "measure (\<lambda>n. n)") auto

declare show_nat.simps [simp del]

definition show_int :: "int \<Rightarrow> string" where
  "show_int i = (if i < 0 then CHR ''-'' # show_nat (nat (- i)) else show_nat (nat i))"

text \<open>
  \<open>encodeURIComponent\<close>: letters, digits and \<open>- _ . ! ~ * ' ( )\<close> stay, every other byte
  becomes \<open>%XX\<close> with upper-case hexadecimal digits.
\<close>

definition hex_char :: "nat \<Rightarrow> char" where
  "hex_char d = (if d < 10 then char_of (48 + d) else char_of (55 + d))"

definition uri_unreserved :: "char \<Rightarrow> bool" where
  "uri_unreserved c =
     (let n = (of_char c :: nat) in
        (65 \<le> n \<and> n \<le> 90) \<or> (97 \<le> n \<and> n \<le> 122) \<or> (48 \<le> n \<and> n \<le> 57) \<or>
        c \<in> set [CHR ''-'', CHR ''_'', CHR ''.'', CHR ''!'', CHR ''~'', CHR ''*'', CHR 0x27,
                   CHR ''('', CHR '')''])"

definition encodeURIComponent :: "string \<Rightarrow> string" where
  "encodeURIComponent s =
     concat (map (\<lambda>c. if uri_unreserved c then [c]
                       else [CHR ''%'', hex_char ((of_char c :: nat) div 16),
                             hex_char ((of_char c :: nat) mod 16)]) s)"

section \<open>Message literals\<close>

text \<open>
  The user-visible messages of the source are Korean string literals. Each is given here
  by its UTF-8 bytes, with an English gloss.
\<close>

text \<open>apiRequest, line 56: 'The request failed.'\<close>

definition msg_request_failed :: string where
  "msg_request_failed =
    [CHR 0xEC, CHR 0x9A, CHR 0x94, CHR 0xEC, CHR 0xB2, CHR 0xAD, CHR 0xEC, CHR 0x9D, CHR 0xB4,
     CHR '' '', CHR 0xEC, CHR 0x8B, CHR 0xA4, CHR 0xED, CHR 0x8C, CHR 0xA8, CHR 0xED, CHR 0x96,
     CHR 0x88, CHR 0xEC, CHR 0x8A, CHR 0xB5, CHR 0xEB, CHR 0x8B, CHR 0x88, CHR 0xEB, CHR 0x8B,
     CHR 0xA4, CHR ''.'']"

text \<open>loadPrescriptions, line 54: 'Could not load the prescriptions.'\<close>

definition msg_list_failed :: string where
  "msg_list_failed =
    [CHR 0xEC, CHR 0xB2, CHR 0x98, CHR 0xEB, CHR 0xB0, CHR 0xA9, CHR 0xEC, CHR 0xA0, CHR 0x84,
     CHR 0xEC, CHR 0x9D, CHR 0x84, CHR '' '', CHR 0xEB, CHR 0xB6, CHR 0x88, CHR 0xEB, CHR 0x9F,
     CHR 0xAC, CHR 0xEC, CHR 0x98, CHR 0xA4, CHR 0xEC, CHR 0xA7, CHR 0x80, CHR '' '', CHR 0xEB,
     CHR 0xAA, CHR 0xBB, CHR 0xED, CHR 0x96, CHR 0x88, CHR 0xEC, CHR 0x8A, CHR 0xB5, CHR 0xEB,
     CHR 0x8B, CHR 0x88, CHR 0xEB, CHR 0x8B, CHR 0xA4, CHR ''.'']"

text \<open>selectPrescription, line 73: 'Could not load the prescription detail.'\<close>

definition msg_detail_failed :: string where
  "msg_detail_failed =
    [CHR 0xEC, CHR 0xB2, CHR 0x98, CHR 0xEB, CHR 0xB0, CHR 0xA9, CHR 0xEC, CHR 0xA0, CHR 0x84,
     CHR '' '', CHR 0xEC, CHR 0x83, CHR 0x81, CHR 0xEC, CHR 0x84, CHR 0xB8, CHR 0xEB, CHR 0xA5,
     CHR 0xBC, CHR '' '', CHR 0xEB, CHR 0xB6, CHR 0x88, CHR 0xEB, CHR 0x9F, CHR 0xAC, CHR 0xEC,
     CHR 0x98, CHR 0xA4, CHR 0xEC, CHR 0xA7, CHR 0x80, CHR '' '', CHR 0xEB, CHR 0xAA, CHR 0xBB,
     CHR 0xED, CHR 0x96, CHR 0x88, CHR 0xEC, CHR 0x8A, CHR 0xB5, CHR 0xEB, CHR 0x8B, CHR 0x88,
     CHR 0xEB, CHR 0x8B, CHR 0xA4, CHR ''.'']"

text \<open>handleAdvanceStatus, line 82: 'A completed prescription can no longer be changed.'\<close>

definition msg_no_next_status :: string where
  "msg_no_next_status =
    [CHR 0xEC, CHR 0x99, CHR 0x84, CHR 0xEB, CHR 0xA3, CHR 0x8C, CHR 0xEB, CHR 0x90, CHR 0x9C,
     CHR '' '', CHR 0xEC, CHR 0xB2, CHR 0x98, CHR 0xEB, CHR 0xB0, CHR 0xA9, CHR 0xEC, CHR 0xA0,
     CHR 0x84, CHR 0xEC, CHR 0x9D, CHR 0x80, CHR '' '', CHR 0xEB, CHR 0x8D, CHR 0x94,
     CHR '' '', CHR 0xEC, CHR 0x9D, CHR 0xB4, CHR 0xEC, CHR 0x83, CHR 0x81, CHR '' '',
     CHR 0xEB, CHR 0xB3, CHR 0x80, CHR 0xEA, CHR 0xB2, CHR 0xBD, CHR 0xED, CHR 0x95, CHR 0xA0,
     CHR '' '', CHR 0xEC, CHR 0x88, CHR 0x98, CHR '' '', CHR 0xEC, CHR 0x97, CHR 0x86,
     CHR 0xEC, CHR 0x8A, CHR 0xB5, CHR 0xEB, CHR 0x8B, CHR 0x88, CHR 0xEB, CHR 0x8B, CHR 0xA4,
     CHR ''.'']"

text \<open>handleAdvanceStatus, line 95: 'The status has been updated.'\<close>

definition msg_status_updated :: string where
  "msg_status_updated =
    [CHR 0xEC, CHR 0x83, CHR 0x81, CHR 0xED, CHR 0x83, CHR 0x9C, CHR 0xEA, CHR 0xB0, CHR 0x80,
     CHR '' '', CHR 0xEC, CHR 0x97, CHR 0x85, CHR 0xEB, CHR 0x8D, CHR 0xB0, CHR 0xEC, CHR 0x9D,
     CHR 0xB4, CHR 0xED, CHR 0x8A, CHR 0xB8, CHR 0xEB, CHR 0x90, CHR 0x98, CHR 0xEC, CHR 0x97,
     CHR 0x88, CHR 0xEC, CHR 0x8A, CHR 0xB5, CHR 0xEB, CHR 0x8B, CHR 0x88, CHR 0xEB, CHR 0x8B,
     CHR 0xA4, CHR ''.'']"

text \<open>handleAdvanceStatus, line 101: 'The status update failed.'\<close>

definition msg_update_failed :: string where
  "msg_update_failed =
    [CHR 0xEC, CHR 0x83, CHR 0x81, CHR 0xED, CHR 0x83, CHR 0x9C, CHR '' '', CHR 0xEC, CHR 0x97,
     CHR 0x85, CHR 0xEB, CHR 0x8D, CHR 0xB0, CHR 0xEC, CHR 0x9D, CHR 0xB4, CHR 0xED, CHR 0x8A,
     CHR 0xB8, CHR 0xEC, CHR 0x97, CHR 0x90, CHR '' '', CHR 0xEC, CHR 0x8B, CHR 0xA4, CHR 0xED,
     CHR 0x8C, CHR 0xA8, CHR 0xED, CHR 0x96, CHR 0x88, CHR 0xEC, CHR 0x8A, CHR 0xB5, CHR 0xEB,
     CHR 0x8B, CHR 0x88, CHR 0xEB, CHR 0x8B, CHR 0xA4, CHR ''.'']"

text \<open>handleSearch, line 37: '<n> pharmacies found.' (the text after the count)\<close>

definition msg_found_suffix :: string where
  "msg_found_suffix =
    [CHR 0xEA, CHR 0xB0, CHR 0x9C, CHR 0xEC, CHR 0x9D, CHR 0x98, CHR '' '', CHR 0xEC, CHR 0x95,
     CHR 0xBD, CHR 0xEA, CHR 0xB5, CHR 0xAD, CHR 0xEC, CHR 0x9D, CHR 0x84, CHR '' '', CHR 0xEC,
     CHR 0xB0, CHR 0xBE, CHR 0xEC, CHR 0x95, CHR 0x98, CHR 0xEC, CHR 0x8A, CHR 0xB5, CHR 0xEB,
     CHR 0x8B, CHR 0x88, CHR 0xEB, CHR 0x8B, CHR 0xA4, CHR ''.'']"

text \<open>handleSearch, line 40: 'The pharmacy search failed.'\<close>

definition msg_search_failed :: string where
  "msg_search_failed =
    [CHR 0xEC, CHR 0x95, CHR 0xBD, CHR 0xEA, CHR 0xB5, CHR 0xAD, CHR '' '', CHR 0xEA, CHR 0xB2,
     CHR 0x80, CHR 0xEC, CHR 0x83, CHR 0x89, CHR 0xEC, CHR 0x97, CHR 0x90, CHR '' '', CHR 0xEC,
     CHR 0x8B, CHR 0xA4, CHR 0xED, CHR 0x8C, CHR 0xA8, CHR 0xED, CHR 0x96, CHR 0x88, CHR 0xEC,
     CHR 0x8A, CHR 0xB5, CHR 0xEB, CHR 0x8B, CHR 0x88, CHR 0xEB, CHR 0x8B, CHR 0xA4, CHR ''.'']"

text \<open>handleDispatch, line 58: 'The prescription was sent to the pharmacy.'\<close>

definition msg_dispatched :: string where
  "msg_dispatched =
    [CHR 0xEC, CHR 0xB2, CHR 0x98, CHR 0xEB, CHR 0xB0, CHR 0xA9, CHR 0xEC, CHR 0xA0, CHR 0x84,
     CHR 0xEC, CHR 0x9D, CHR 0x84, CHR '' '', CHR 0xEC, CHR 0x95, CHR 0xBD, CHR 0xEA, CHR 0xB5,
     CHR 0xAD, CHR 0xEC, CHR 0x9C, CHR 0xBC, CHR 0xEB, CHR 0xA1, CHR 0x9C, CHR '' '', CHR 0xEC,
     CHR 0xA0, CHR 0x84, CHR 0xEC, CHR 0x86, CHR 0xA1, CHR 0xED, CHR 0x96, CHR 0x88, CHR 0xEC,
     CHR 0x8A, CHR 0xB5, CHR 0xEB, CHR 0x8B, CHR 0x88, CHR 0xEB, CHR 0x8B, CHR 0xA4, CHR ''.'']"

text \<open>handleDispatch, line 64: 'Sending the prescription failed.'\<close>

definition msg_dispatch_failed :: string where
  "msg_dispatch_failed =
    [CHR 0xEC, CHR 0xB2, CHR 0x98, CHR 0xEB, CHR 0xB0, CHR 0xA9, CHR 0xEC, CHR 0xA0, CHR 0x84,
     CHR '' '', CHR 0xEC, CHR 0xA0, CHR 0x84, CHR 0xEC, CHR 0x86, CHR 0xA1, CHR 0xEC, CHR 0x97,
     CHR 0x90, CHR '' '', CHR 0xEC, CHR 0x8B, CHR 0xA4, CHR 0xED, CHR 0x8C, CHR 0xA8, CHR 0xED,
     CHR 0x96, CHR 0x88, CHR 0xEC, CHR 0x8A, CHR 0xB5, CHR 0xEB, CHR 0x8B, CHR 0x88, CHR 0xEB,
     CHR 0x8B, CHR 0xA4, CHR ''.'']"

section \<open>Data contracts (types/api)\<close>

datatype Role = DOCTOR | PHARMACIST

datatype PrescriptionStatus = CREATED | RECEIVED | DISPENSING | COMPLETED

text \<open>A status is a string at run time; this is the string that goes on the wire.\<close>

fun status_string :: "PrescriptionStatus \<Rightarrow> string" where
  "status_string CREATED = ''CREATED''"
| "status_string RECEIVED = ''RECEIVED''"
| "status_string DISPENSING = ''DISPENSING''"
| "status_string COMPLETED = ''COMPLETED''"

record PharmacySummary =
  pharmacy_id :: int
  pharmacy_name :: string
  pharmacy_address :: string
  pharmacy_phone :: "string option"
  pharmacy_hospitalId :: "int option"
  pharmacy_hospitalName :: "string option"

record DoctorSummary =
  doctor_id :: int
  doctor_name :: string
  doctor_hospitalName :: "string option"
  doctor_departmentName :: "string option"

record PatientRef =
  patient_id :: int
  patient_name :: string

record PrescriptionSummary =
  prescriptionId :: int
  medicalRecordId :: int
  issueDate :: string
  status :: PrescriptionStatus
  diagnosis :: string
  patient :: PatientRef
  doctor :: DoctorSummary

record MedicineInfo =
  medicine_id :: "int option"
  medicine_name :: string
  manufacturer :: "string option"
  effect :: "string option"
  instruction :: "string option"
  dosage :: "string option"

record PrescriptionDetail = PrescriptionSummary +
  pharmacy :: "PharmacySummary option"
  medicines :: "MedicineInfo list"
  detail_notes :: "string option"

section \<open>Remote API client (lib/api)\<close>

text \<open>JSON values. A number is an integer here (see above).\<close>

datatype js =
    JNull
  | JBool bool
  | JNum int
  | JStr string
  | JArr "js list"
  | JObj "(string \<times> js) list"

definition join_comma :: "string list \<Rightarrow> string" where
  "join_comma xs = (case xs of [] \<Rightarrow> [] | y # ys \<Rightarrow> y @ concat (map (\<lambda>z. CHR '','' # z) ys))"

text \<open>
  \<open>String(v)\<close>: an array is its elements joined by commas, with \<open>null\<close> elements
  empty; an object is \<open>[object Object]\<close>.
\<close>

fun js_String :: "js \<Rightarrow> string" where
  "js_String JNull = ''null''"
| "js_String (JBool b) = (if b then ''true'' else ''false'')"
| "js_String (JNum n) = show_int n"
| "js_String (JStr s) = s"
| "js_String (JArr xs) =
     join_comma (map (\<lambda>x. if x = JNull then [] else js_String x) xs)"
| "js_String (JObj fs) = ''[object Object]''"

text \<open>
  \<open>'message' in payload\<close> and \<open>payload.message\<close> on a parsed JSON object: the last
  occurrence of a repeated key is the one \<open>JSON.parse\<close> keeps.
\<close>

definition js_field :: "(string \<times> js) list \<Rightarrow> string \<Rightarrow> js option" where
  "js_field fs k = map_of (rev fs) k"

text \<open>
  One call \<open>apiRequest(path, {method, json, token})\<close>. The call performs exactly one
  \<open>fetch\<close> (line 45), of \<open>BASE_URL + path\<close>, with the bearer token in the
  \<open>Authorization\<close> header when the token is a non-empty string.
\<close>

record request =
  path :: string
  http_method :: "string option"
  json :: "js option"
  token :: "string option"

definition authorization :: "request \<Rightarrow> string option" where
  "authorization r =
     (case token r of None \<Rightarrow> None
      | Some t \<Rightarrow> if t = [] then None else Some (''Bearer '' @ t))"

text \<open>
  The body of a response that is not ok, as lines 46-49 read it: by \<open>response.json()\<close>
  when the content type includes \<open>application/json\<close>, by \<open>response.text()\<close> otherwise;
  \<open>None\<close> is a read that rejects, which the \<open>catch\<close> turns into \<open>null\<close>.
\<close>

datatype body = JsonBody "js option" | TextBody "string option"

text \<open>
  What the remote system does with one fetch: the fetch itself rejects (no response), or
  the response is not ok (its status and body), or it is ok, and then \<open>Ok p\<close> carries
  the payload \<open>p\<close> that line 60 returns. Line 60 casts the payload to the caller's
  \<open>T\<close> without a check, so what the caller holds need not be a \<open>T\<close>: it is
  \<open>null\<close> when the body of an ok response cannot be read (lines 48-49) or is the JSON
  \<open>null\<close>, and a string when the body is not served as JSON. The type of \<open>p\<close> is
  therefore chosen per call, by what the caller does with the payload:
  \<^item> the PATCH and the POST ignore it: \<open>unit\<close>, which stands for every payload;
  \<^item> the detail fetch stores it in the selected-detail cell, whose type admits
    \<open>null\<close>: \<open>PrescriptionDetail option\<close>, with \<open>None\<close> for the payload
    \<open>null\<close> (the empty text, also falsy, reads the same at every read of the cell:
    lines 79, 130, 195);
  \<^item> the aggregator calls \<open>data.filter\<close> inside its \<open>try\<close>:
    \<open>PrescriptionSummary list option\<close>, with \<open>None\<close> for a payload that is not
    a list (\<open>null\<close> or a string), on which the call throws a \<open>TypeError\<close>;
  \<^item> the list fetches of the two panels store it in a cell that is a list: a list.
  Any other payload of an ok response (a non-empty string or JSON of another shape as the
  detail, anything but a list as a panel's list) puts a value in a cell that the cell's type
  does not admit. The render that follows dereferences it and throws
  (\<open>prescriptions.map\<close>, \<open>results.map\<close>, \<open>selectedDetail.patient.name\<close>), and
  with no error boundary the panel is unmounted. The model covers the answers after which the
  panel is still there.
\<close>

datatype 'a fetch_outcome = FetchRejects | NotOk nat body | Ok 'a

datatype api_exn = ApiError string nat js | OtherError

definition payload_of :: "body \<Rightarrow> js" where
  "payload_of b =
     (case b of
        JsonBody r \<Rightarrow> (case r of None \<Rightarrow> JNull | Some v \<Rightarrow> v)
      | TextBody r \<Rightarrow> (case r of None \<Rightarrow> JNull | Some t \<Rightarrow> JStr t))"

text \<open>Lines 52-56: the message of the \<open>ApiError\<close>.\<close>

definition error_message :: "js \<Rightarrow> string" where
  "error_message payload =
     (case payload of
        JStr s \<Rightarrow> if s \<noteq> [] then s else msg_request_failed
      | JObj fs \<Rightarrow>
          (case js_field fs ''message'' of
             Some m \<Rightarrow> js_String m
           | None \<Rightarrow> msg_request_failed)
      | _ \<Rightarrow> msg_request_failed)"

text \<open>The result of a call: the fetches it made, and what it throws or returns.\<close>

definition apiRequest :: "request \<Rightarrow> 'a fetch_outcome \<Rightarrow> request list \<times> (api_exn + 'a)" where
  "apiRequest r outcome =
     ([r],
      (case outcome of
         FetchRejects \<Rightarrow> Inl OtherError
       | NotOk st b \<Rightarrow> Inl (ApiError (error_message (payload_of b)) st (payload_of b))
       | Ok v \<Rightarrow> Inr v))"

text \<open>
  The handlers' \<open>catch\<close> clauses: the message of an \<open>ApiError\<close>, the handler's own
  fallback text for anything else.
\<close>

definition caught_message :: "api_exn \<Rightarrow> string \<Rightarrow> string" where
  "caught_message e fallback = (case e of ApiError m _ _ \<Rightarrow> m | OtherError \<Rightarrow> fallback)"

text \<open>
  What a handler does to the outside, in order: a fetch (one per \<open>apiRequest\<close> call),
  or a call of the \<open>onStatusUpdated\<close> callback.
\<close>

datatype event = Fetch request | StatusUpdated

text \<open>\<open>!token\<close>: the token is \<open>null\<close> or the empty string.\<close>

definition no_token :: "string option \<Rightarrow> bool" where
  "no_token t = (case t of None \<Rightarrow> True | Some s \<Rightarrow> s = [])"

section \<open>Prescription lifecycle (components/PrescriptionsPanel)\<close>

definition pharmacistStatusSteps :: "PrescriptionStatus list" where
  "pharmacistStatusSteps = [RECEIVED, DISPENSING, COMPLETED]"

text \<open>\<open>Array.prototype.indexOf\<close>: the first index of the element, or \<open>-1\<close>.\<close>

fun indexOf :: "'a list \<Rightarrow> 'a \<Rightarrow> int" where
  "indexOf [] x = - 1"
| "indexOf (y # ys) x =
     (if y = x then 0 else (let i = indexOf ys x in if i = - 1 then - 1 else i + 1))"

text \<open>\<open>xs[i] ?? null\<close>: an index out of range reads \<open>undefined\<close>.\<close>

definition at_or_null :: "'a list \<Rightarrow> int \<Rightarrow> 'a option" where
  "at_or_null xs i = (if 0 \<le> i \<and> nat i < length xs then Some (xs ! nat i) else None)"

definition getNextStatus :: "PrescriptionStatus \<Rightarrow> PrescriptionStatus option" where
  "getNextStatus current =
     (let currentIndex = indexOf pharmacistStatusSteps current in
      if currentIndex = - 1 then None
      else at_or_null pharmacistStatusSteps (currentIndex + 1))"

text \<open>
  The component state (the five \<open>useState\<close> cells). The panel's \<open>disabled\<close> is
  \<open>!token\<close>, written \<open>no_token tok\<close> below.
\<close>

record PrescriptionsPanel_state =
  prescriptions :: "PrescriptionSummary list"
  selectedId :: "int option"
  selectedDetail :: "PrescriptionDetail option"
  loading :: bool
  message :: "string option"

text \<open>
  A handler is a function from the state to the state after it and the events it caused.
  Its arguments are the props (\<open>token\<close>, \<open>role\<close>, whether \<open>onStatusUpdated\<close> was
  passed), what the remote system answers to each request the handler can make, in the
  order of the requests, and the state. A handler runs alone: nothing else writes the
  state between its start and its end.
\<close>

definition selectPrescription ::
  "string option \<Rightarrow> int \<Rightarrow> PrescriptionDetail option fetch_outcome \<Rightarrow>
   PrescriptionsPanel_state \<Rightarrow> PrescriptionsPanel_state \<times> event list" where
  "selectPrescription tok id' detail_outcome st =
     (let st1 = st\<lparr>selectedId := Some id'\<rparr> in
      if no_token tok then (st1, [])
      else
        (case apiRequest \<lparr>path = ''/prescriptions/'' @ show_int id', http_method = None,
                           json = None, token = tok\<rparr> detail_outcome of
           (fs, Inr detail) \<Rightarrow> (st1\<lparr>selectedDetail := detail\<rparr>, map Fetch fs)
         | (fs, Inl error) \<Rightarrow>
             (st1\<lparr>message := Some (caught_message error msg_detail_failed)\<rparr>, map Fetch fs)))"

text \<open>
  \<open>loadPrescriptions\<close> reads \<open>selectedId\<close> from its closure, that is from the state
  of the render that created the function (\<open>rendered\<close>), and writes the current state
  (\<open>st\<close>). For the refresh button and the mount effect the two are the same state; inside
  \<open>handleAdvanceStatus\<close> the call comes after \<open>selectPrescription\<close> has written.
\<close>

definition loadPrescriptions ::
  "string option \<Rightarrow> PrescriptionsPanel_state \<Rightarrow> PrescriptionSummary list fetch_outcome \<Rightarrow>
   PrescriptionDetail option fetch_outcome \<Rightarrow>
   PrescriptionsPanel_state \<Rightarrow> PrescriptionsPanel_state \<times> event list" where
  "loadPrescriptions tok rendered list_outcome detail_outcome st =
     (if no_token tok then (st, [])
      else
        (let st1 = st\<lparr>loading := True, message := None\<rparr> in
         case apiRequest \<lparr>path = ''/prescriptions'', http_method = None, json = None,
                          token = tok\<rparr> list_outcome of
           (fs, Inr data) \<Rightarrow>
             (let st2 = st1\<lparr>prescriptions := data\<rparr> in
              case data of
                [] \<Rightarrow> (st2\<lparr>selectedDetail := None, selectedId := None, loading := False\<rparr>,
                       map Fetch fs)
              | first # _ \<Rightarrow>
                  (case selectedId rendered of
                     None \<Rightarrow>
                       (let (st3, ev) = selectPrescription tok (prescriptionId first)
                                          detail_outcome st2
                        in (st3\<lparr>loading := False\<rparr>, map Fetch fs @ ev))
                   | Some sel \<Rightarrow>
                       (let exists = list_ex (\<lambda>item. prescriptionId item = sel) data in
                        if \<not> exists then
                          (let (st3, ev) = selectPrescription tok (prescriptionId first)
                                             detail_outcome st2
                           in (st3\<lparr>loading := False\<rparr>, map Fetch fs @ ev))
                        else (st2\<lparr>loading := False\<rparr>, map Fetch fs))))
         | (fs, Inl error) \<Rightarrow>
             (st1\<lparr>message := Some (caught_message error msg_list_failed), loading := False\<rparr>,
              map Fetch fs)))"

text \<open>
  \<open>handleAdvanceStatus\<close> is the click handler of the advance button: the state it reads
  is the state it starts from. The four outcomes answer the PATCH, the detail fetch, the
  list fetch and the detail fetch that the list refresh may make.
\<close>

definition handleAdvanceStatus ::
  "string option \<Rightarrow> Role option \<Rightarrow> bool \<Rightarrow> unit fetch_outcome \<Rightarrow>
   PrescriptionDetail option fetch_outcome \<Rightarrow> PrescriptionSummary list fetch_outcome \<Rightarrow>
   PrescriptionDetail option fetch_outcome \<Rightarrow>
   PrescriptionsPanel_state \<Rightarrow> PrescriptionsPanel_state \<times> event list" where
  "handleAdvanceStatus tok role onStatusUpdated patch_outcome detail_outcome list_outcome
       detail_outcome2 st =
     (case selectedDetail st of
        None \<Rightarrow> (st, [])
      | Some detail \<Rightarrow>
          if no_token tok \<or> role \<noteq> Some PHARMACIST then (st, [])
          else
            (case getNextStatus (status detail) of
               None \<Rightarrow> (st\<lparr>message := Some msg_no_next_status\<rparr>, [])
             | Some nextStatus \<Rightarrow>
                 (let st1 = st\<lparr>loading := True, message := None\<rparr> in
                  case apiRequest
                         \<lparr>path = ''/prescriptions/'' @ show_int (prescriptionId detail) @ ''/status'',
                          http_method = Some ''PATCH'',
                          json = Some (JObj [(''status'', JStr (status_string nextStatus))]),
                          token = tok\<rparr> patch_outcome of
                    (fs, Inr _) \<Rightarrow>
                      (let (st2, ev2) = selectPrescription tok (prescriptionId detail)
                                          detail_outcome st1;
                           (st3, ev3) = loadPrescriptions tok st list_outcome detail_outcome2 st2;
                           st4 = st3\<lparr>message := Some msg_status_updated\<rparr>;
                           ev4 = (if onStatusUpdated then [StatusUpdated] else [])
                       in (st4\<lparr>loading := False\<rparr>, map Fetch fs @ ev2 @ ev3 @ ev4))
                  | (fs, Inl error) \<Rightarrow>
                      (st1\<lparr>message := Some (caught_message error msg_update_failed),
                           loading := False\<rparr>,
                       map Fetch fs))))"

text \<open>
  What the panel shows of its message (lines 263-267): \<open>message ? <p>...</p> : null\<close>.
  The empty string is falsy, so an empty message shows nothing.
\<close>

definition visible_message :: "PrescriptionsPanel_state \<Rightarrow> string option" where
  "visible_message st =
     (case message st of None \<Rightarrow> None | Some m \<Rightarrow> if m = [] then None else Some m)"

section \<open>Pharmacy search and dispatch (components/PharmacySearchPanel)\<close>

record PharmacySearchPanel_state =
  keyword :: string
  results :: "PharmacySummary list"
  selectedPharmacyId :: "int option"
  dispatch_prescriptionId :: string
  search_message :: "string option"
  search_loading :: bool

text \<open>\<open>disabled = role !== 'DOCTOR' || !token\<close>.\<close>

definition search_disabled :: "string option \<Rightarrow> Role option \<Rightarrow> bool" where
  "search_disabled tok role = (role \<noteq> Some DOCTOR \<or> no_token tok)"

text \<open>\<open>!selectedPharmacyId\<close>: the id is \<open>null\<close> or the number 0.\<close>

definition no_pharmacy :: "int option \<Rightarrow> bool" where
  "no_pharmacy p = (case p of None \<Rightarrow> True | Some n \<Rightarrow> n = 0)"

definition handleSearch ::
  "string option \<Rightarrow> Role option \<Rightarrow> PharmacySummary list fetch_outcome \<Rightarrow>
   PharmacySearchPanel_state \<Rightarrow> PharmacySearchPanel_state \<times> event list" where
  "handleSearch tok role outcome st =
     (if keyword st = [] \<or> search_disabled tok role then (st, [])
      else
        (let st1 = st\<lparr>search_loading := True, search_message := None\<rparr> in
         case apiRequest
                \<lparr>path = ''/pharmacies?keyword='' @ encodeURIComponent (keyword st) @ ''&size=10'',
                 http_method = None, json = None, token = tok\<rparr> outcome of
           (fs, Inr data) \<Rightarrow>
             (let st2 = st1\<lparr>results := data\<rparr>;
                  st3 = (case data of
                           [] \<Rightarrow> st2
                         | first # _ \<Rightarrow> st2\<lparr>selectedPharmacyId := Some (pharmacy_id first)\<rparr>)
              in (st3\<lparr>search_message := Some (show_nat (length data) @ msg_found_suffix),
                      search_loading := False\<rparr>,
                  map Fetch fs))
         | (fs, Inl error) \<Rightarrow>
             (st1\<lparr>search_message := Some (caught_message error msg_search_failed),
                  search_loading := False\<rparr>,
              map Fetch fs)))"

definition handleDispatch ::
  "string option \<Rightarrow> Role option \<Rightarrow> unit fetch_outcome \<Rightarrow>
   PharmacySearchPanel_state \<Rightarrow> PharmacySearchPanel_state \<times> event list" where
  "handleDispatch tok role outcome st =
     (if search_disabled tok role \<or> no_pharmacy (selectedPharmacyId st) \<or>
         dispatch_prescriptionId st = [] then (st, [])
      else
        (let st1 = st\<lparr>search_loading := True, search_message := None\<rparr> in
         case apiRequest
                \<lparr>path = ''/prescriptions/'' @ dispatch_prescriptionId st @ ''/dispatch'',
                 http_method = Some ''POST'',
                 json = Some (JObj [(''pharmacyId'',
                                     (case selectedPharmacyId st of
                                        None \<Rightarrow> JNull | Some n \<Rightarrow> JNum n))]),
                 token = tok\<rparr> outcome of
           (fs, Inr _) \<Rightarrow>
             (st1\<lparr>search_message := Some msg_dispatched, dispatch_prescriptionId := [],
                  search_loading := False\<rparr>,
              map Fetch fs)
         | (fs, Inl error) \<Rightarrow>
             (st1\<lparr>search_message := Some (caught_message error msg_dispatch_failed),
                  search_loading := False\<rparr>,
              map Fetch fs)))"

section \<open>Pending-count aggregator (App)\<close>


section \<open>Observations and sample data\<close>

text \<open>The status-update requests among the events: the fetches with method PATCH.\<close>

definition status_update_requests :: "event list \<Rightarrow> request list" where
  "status_update_requests evs =
     concat (map (\<lambda>e. case e of
                          Fetch r \<Rightarrow> (if http_method r = Some ''PATCH'' then [r] else [])
                        | StatusUpdated \<Rightarrow> []) evs)"

text \<open>The request that asks the remote system to move prescription \<open>i\<close> to status \<open>s\<close>.\<close>

definition status_update :: "string option \<Rightarrow> int \<Rightarrow> PrescriptionStatus \<Rightarrow> request" where
  "status_update tok i s =
     \<lparr>path = ''/prescriptions/'' @ show_int i @ ''/status'', http_method = Some ''PATCH'',
      json = Some (JObj [(''status'', JStr (status_string s))]), token = tok\<rparr>"

definition detail_request :: "string option \<Rightarrow> int \<Rightarrow> request" where
  "detail_request tok i =
     \<lparr>path = ''/prescriptions/'' @ show_int i, http_method = None, json = None, token = tok\<rparr>"

definition list_request :: "string option \<Rightarrow> request" where
  "list_request tok = \<lparr>path = ''/prescriptions'', http_method = None, json = None, token = tok\<rparr>"

definition dispatch_request :: "string option \<Rightarrow> string \<Rightarrow> int \<Rightarrow> request" where
  "dispatch_request tok pid pharmacyId =
     \<lparr>path = ''/prescriptions/'' @ pid @ ''/dispatch'', http_method = Some ''POST'',
      json = Some (JObj [(''pharmacyId'', JNum pharmacyId)]), token = tok\<rparr>"

text \<open>Concrete values for the examples.\<close>

definition sample_summary :: "int \<Rightarrow> PrescriptionStatus \<Rightarrow> PrescriptionSummary" where
  "sample_summary i s =
     \<lparr>prescriptionId = i, medicalRecordId = 40, issueDate = ''2024-05-01'', status = s,
      diagnosis = ''flu'',
      patient = \<lparr>patient_id = 5, patient_name = ''Lee''\<rparr>,
      doctor = \<lparr>doctor_id = 3, doctor_name = ''Kim'', doctor_hospitalName = None,
                doctor_departmentName = None\<rparr>\<rparr>"

definition sample_pharmacy :: "int \<Rightarrow> PharmacySummary" where
  "sample_pharmacy i =
     \<lparr>pharmacy_id = i, pharmacy_name = ''Center Pharmacy'', pharmacy_address = ''1 Main St'',
      pharmacy_phone = None, pharmacy_hospitalId = None, pharmacy_hospitalName = None\<rparr>"

definition sample_detail :: "int \<Rightarrow> PrescriptionStatus \<Rightarrow> PrescriptionDetail" where
  "sample_detail i s =
     \<lparr>prescriptionId = i, medicalRecordId = 40, issueDate = ''2024-05-01'', status = s,
      diagnosis = ''flu'',
      patient = \<lparr>patient_id = 5, patient_name = ''Lee''\<rparr>,
      doctor = \<lparr>doctor_id = 3, doctor_name = ''Kim'', doctor_hospitalName = None,
                doctor_departmentName = None\<rparr>,
      pharmacy = (if s = CREATED then None else Some (sample_pharmacy 7)),
      medicines = [], detail_notes = None\<rparr>"

text \<open>A panel that shows prescription \<open>i\<close> in status \<open>s\<close>, selected, with no message.\<close>

definition sample_panel :: "int \<Rightarrow> PrescriptionStatus \<Rightarrow> PrescriptionsPanel_state" where
  "sample_panel i s =
     \<lparr>prescriptions = [sample_summary i s], selectedId = Some i,
      selectedDetail = Some (sample_detail i s), loading = False, message = None\<rparr>"

text \<open>
  The panel after a click on prescription 13 whose detail fetch was rejected: 13 is the
  selected id, the detail shown is still that of prescription 12.
\<close>

definition sample_split_panel :: PrescriptionsPanel_state where
  "sample_split_panel =
     fst (selectPrescription (Some ''t'') 13 FetchRejects
            ((sample_panel 12 RECEIVED)
               \<lparr>prescriptions := [sample_summary 12 RECEIVED, sample_summary 13 RECEIVED]\<rparr>))"

text \<open>A search panel with the given selection and prescription id typed in.\<close>

definition sample_search :: "int option \<Rightarrow> string \<Rightarrow> PharmacySearchPanel_state" where
  "sample_search sel pid =
     \<lparr>keyword = ''center'', results = [], selectedPharmacyId = sel,
      dispatch_prescriptionId = pid, search_message = None, search_loading = False\<rparr>"

section \<open>Facts about the handlers\<close>

lemma getNextStatus_values:
  "getNextStatus CREATED = None" "getNextStatus RECEIVED = Some DISPENSING"
  "getNextStatus DISPENSING = Some COMPLETED" "getNextStatus COMPLETED = None"
  by (simp_all add: getNextStatus_def pharmacistStatusSteps_def at_or_null_def)

lemma selectPrescription_events:
  "snd (selectPrescription tok i out st) = (if no_token tok then [] else [Fetch (detail_request tok i)])"
  by (simp add: selectPrescription_def apiRequest_def detail_request_def Let_def split: fetch_outcome.splits)

lemma selectPrescription_fst:
  "selectedId (fst (selectPrescription tok i out st)) = Some i"
  "selectedDetail (fst (selectPrescription tok i out st)) =
     (if no_token tok then selectedDetail st
      else case out of Ok detail \<Rightarrow> detail | _ \<Rightarrow> selectedDetail st)"
  "prescriptions (fst (selectPrescription tok i out st)) = prescriptions st"
  by (simp_all add: selectPrescription_def apiRequest_def Let_def split: fetch_outcome.splits)

lemma loadPrescriptions_events:
  "\<not> no_token tok \<Longrightarrow> \<exists>rest. snd (loadPrescriptions tok rendered lo dout st) = Fetch (list_request tok) # rest \<and>
      (rest = [] \<or> (\<exists>i. rest = [Fetch (detail_request tok i)]))"
  by (auto simp add: loadPrescriptions_def apiRequest_def Let_def list_request_def selectPrescription_events
       case_prod_beta split: fetch_outcome.splits list.splits option.splits)

lemma loadPrescriptions_events_disabled:
  "no_token tok \<Longrightarrow> loadPrescriptions tok rendered lo dout st = (st, [])"
  by (simp add: loadPrescriptions_def)

lemma advance_events:
  assumes "\<not> no_token tok" and "selectedDetail st = Some d" and "getNextStatus (status d) = Some n"
  shows "\<exists>rest. snd (handleAdvanceStatus tok (Some PHARMACIST) cb (Ok u) d1 lo d2 st) =
     [Fetch (status_update tok (prescriptionId d) n), Fetch (detail_request tok (prescriptionId d)),
      Fetch (list_request tok)] @ rest @ (if cb then [StatusUpdated] else []) \<and>
      (rest = [] \<or> (\<exists>i. rest = [Fetch (detail_request tok i)]))"
proof -
  obtain st2 ev2 where s2: "selectPrescription tok (prescriptionId d) d1 (st\<lparr>loading := True, message := None\<rparr>) = (st2, ev2)"
    by (cases "selectPrescription tok (prescriptionId d) d1 (st\<lparr>loading := True, message := None\<rparr>)")
  have ev2: "ev2 = [Fetch (detail_request tok (prescriptionId d))]"
    using selectPrescription_events [of tok "prescriptionId d" d1 "st\<lparr>loading := True, message := None\<rparr>"] s2 assms(1)
    by simp
  obtain st3 ev3 where s3: "loadPrescriptions tok st lo d2 st2 = (st3, ev3)"
    by (cases "loadPrescriptions tok st lo d2 st2")
  obtain rest where ev3: "ev3 = Fetch (list_request tok) # rest" 
     and rest: "rest = [] \<or> (\<exists>i. rest = [Fetch (detail_request tok i)])"
    using loadPrescriptions_events [OF assms(1), of st lo d2 st2] s3 by auto
  have "snd (handleAdvanceStatus tok (Some PHARMACIST) cb (Ok u) d1 lo d2 st) =
      Fetch (status_update tok (prescriptionId d) n) # ev2 @ ev3 @ (if cb then [StatusUpdated] else [])"
    using assms s2 s3 by (simp add: handleAdvanceStatus_def apiRequest_def status_update_def)
  with ev2 ev3 rest show ?thesis by auto
qed

lemma advance_state:
  assumes "\<not> no_token tok" and "selectedDetail st = Some d" and "getNextStatus (status d) = Some n"
  shows "fst (handleAdvanceStatus tok (Some PHARMACIST) cb (Ok u) d1 lo d2 st) =
     (fst (loadPrescriptions tok st lo d2
        (fst (selectPrescription tok (prescriptionId d) d1 (st\<lparr>loading := True, message := None\<rparr>)))))
       \<lparr>message := Some msg_status_updated, loading := False\<rparr>"
  using assms
  by (simp add: handleAdvanceStatus_def apiRequest_def case_prod_beta Let_def)






lemma msg_detail_failed_nonempty: "msg_detail_failed \<noteq> []"
  by (simp add: msg_detail_failed_def)

lemma error_message_empty:
  "error_message p = [] \<longleftrightarrow>
     (\<exists>fs m. p = JObj fs \<and> js_field fs ''message'' = Some m \<and> js_String m = [])"
  by (cases p) (auto simp add: error_message_def msg_request_failed_def split: option.splits)

lemma status_update_requests_simps:
  "status_update_requests [] = []"
  "status_update_requests (Fetch r # evs) =
     (if http_method r = Some ''PATCH'' then r # status_update_requests evs else status_update_requests evs)"
  "status_update_requests (StatusUpdated # evs) = status_update_requests evs"
  "status_update_requests (xs @ ys) = status_update_requests xs @ status_update_requests ys"
  by (simp_all add: status_update_requests_def)

lemma request_methods:
  "http_method (status_update tok i s) = Some ''PATCH''"
  "http_method (detail_request tok i) = None"
  "http_method (list_request tok) = None"
  by (simp_all add: status_update_def detail_request_def list_request_def)

lemma advance_patch_fails:
  assumes "\<not> no_token tok" and "selectedDetail st = Some d" and "getNextStatus (status d) = Some n"
    and "\<forall>u. po \<noteq> Ok u"
  shows "snd (handleAdvanceStatus tok (Some PHARMACIST) cb po d1 lo d2 st) =
     [Fetch (status_update tok (prescriptionId d) n)]"
  using assms
  by (cases po) (simp_all add: handleAdvanceStatus_def apiRequest_def status_update_def)

lemma advance_single_update:
  assumes "\<not> no_token tok" and "selectedDetail st = Some d" and "getNextStatus (status d) = Some n"
  shows "status_update_requests (snd (handleAdvanceStatus tok (Some PHARMACIST) cb po d1 lo d2 st)) =
     [status_update tok (prescriptionId d) n]"
proof (cases "\<exists>u. po = Ok u")
  case True
  then obtain u where "po = Ok u" ..
  with advance_events [OF assms, of cb u d1 lo d2] show ?thesis
    by (auto simp add: status_update_requests_simps request_methods)
next
  case False
  then have "\<forall>u. po \<noteq> Ok u" by simp
  from advance_patch_fails [OF assms this, of cb d1 lo d2] show ?thesis
    by (simp add: status_update_requests_simps request_methods)
qed

lemma advance_no_successor:
  assumes "\<not> no_token tok" and "selectedDetail st = Some d" and "getNextStatus (status d) = None"
  shows "handleAdvanceStatus tok (Some PHARMACIST) cb po d1 lo d2 st =
     (st\<lparr>message := Some msg_no_next_status\<rparr>, [])"
  using assms by (simp add: handleAdvanceStatus_def)

section \<open>The claims\<close>

text \<open>
  C1. A pharmacist with a token advances the prescription shown in the detail pane. From
  RECEIVED the events of the handler hold exactly one status-update request, and it asks
  for DISPENSING; from DISPENSING exactly one, asking for COMPLETED. From CREATED or
  COMPLETED the handler only sets the no-successor message: no event, so no network call.
  This holds whatever the remote system answers.
\<close>

theorem advance_targets_successor:
  assumes "\<not> no_token tok" and "role = Some PHARMACIST" and "selectedDetail st = Some d"
  shows "(status d = RECEIVED \<longrightarrow>
            status_update_requests (snd (handleAdvanceStatus tok role cb po d1 lo d2 st)) =
              [status_update tok (prescriptionId d) DISPENSING]) \<and>
         (status d = DISPENSING \<longrightarrow>
            status_update_requests (snd (handleAdvanceStatus tok role cb po d1 lo d2 st)) =
              [status_update tok (prescriptionId d) COMPLETED]) \<and>
         (status d = CREATED \<or> status d = COMPLETED \<longrightarrow>
            handleAdvanceStatus tok role cb po d1 lo d2 st =
              (st\<lparr>message := Some msg_no_next_status\<rparr>, []))"
  using assms advance_single_update [of tok st d _ cb po d1 lo d2]
    advance_no_successor [of tok st d cb po d1 lo d2]
  by (auto simp add: getNextStatus_values)

theorem advance_targets_successor_witness:
  "\<not> no_token (Some ''t'') \<and> selectedDetail (sample_panel 12 RECEIVED) = Some (sample_detail 12 RECEIVED) \<and>
   status (sample_detail 12 RECEIVED) = RECEIVED \<and>
   status_update_requests (snd (handleAdvanceStatus (Some ''t'') (Some PHARMACIST) True (Ok ())
       (Ok (Some (sample_detail 12 DISPENSING))) (Ok [sample_summary 12 DISPENSING]) FetchRejects
       (sample_panel 12 RECEIVED))) = [status_update (Some ''t'') 12 DISPENSING] \<and>
   selectedDetail (sample_panel 12 COMPLETED) = Some (sample_detail 12 COMPLETED) \<and>
   status (sample_detail 12 COMPLETED) = COMPLETED \<and>
   handleAdvanceStatus (Some ''t'') (Some PHARMACIST) True (Ok ())
       (Ok (Some (sample_detail 12 DISPENSING))) (Ok [sample_summary 12 DISPENSING]) FetchRejects
       (sample_panel 12 COMPLETED) = ((sample_panel 12 COMPLETED)\<lparr>message := Some msg_no_next_status\<rparr>, [])"
proof -
  have t: "\<not> no_token (Some ''t'')" by (simp add: no_token_def)
  have r: "selectedDetail (sample_panel 12 RECEIVED) = Some (sample_detail 12 RECEIVED)"
    by (simp add: sample_panel_def)
  have c: "selectedDetail (sample_panel 12 COMPLETED) = Some (sample_detail 12 COMPLETED)"
    by (simp add: sample_panel_def)
  have sr: "status (sample_detail 12 RECEIVED) = RECEIVED" "prescriptionId (sample_detail 12 RECEIVED) = 12"
    by (simp_all add: sample_detail_def)
  have sc: "status (sample_detail 12 COMPLETED) = COMPLETED" 
    by (simp_all add: sample_detail_def)
  show ?thesis
    using t r c sr sc
      advance_targets_successor [OF t refl r, of True "Ok ()" "Ok (Some (sample_detail 12 DISPENSING))"
        "Ok [sample_summary 12 DISPENSING]" FetchRejects]
      advance_targets_successor [OF t refl c, of True "Ok ()" "Ok (Some (sample_detail 12 DISPENSING))"
        "Ok [sample_summary 12 DISPENSING]" FetchRejects]
    by simp
qed

text \<open>
  C2, at an input where the code leaves the claim. The refresh that \<open>handleAdvanceStatus\<close>
  runs tests the selected id of its closure, the one of the render in which the advance
  button was clicked, and not the id that \<open>selectPrescription\<close> has just written. A
  pharmacist clicks prescription 13, the detail fetch fails, so 13 is selected and the detail
  of 12 is shown; then the pharmacist advances. With the list answered \<open>[13]\<close> the refresh
  succeeds, the selected id is 12, which is not in the new list, and nothing falls back (no
  second detail fetch). With the list answered \<open>[14, 12]\<close> the selected id 12 is in the
  new list and is replaced by 14 all the same. The same refresh from the refresh button,
  with 12 selected and the list answered \<open>[13]\<close>, does fall back to 13.
\<close>

theorem advance_refresh_tests_stale_selection:
  "selectedId sample_split_panel = Some 13 \<and>
   selectedDetail sample_split_panel = Some (sample_detail 12 RECEIVED) \<and>
   prescriptions (fst (handleAdvanceStatus (Some ''t'') (Some PHARMACIST) True (Ok ())
      (Ok (Some (sample_detail 12 DISPENSING))) (Ok [sample_summary 13 RECEIVED]) FetchRejects
      sample_split_panel)) = [sample_summary 13 RECEIVED] \<and>
   selectedId (fst (handleAdvanceStatus (Some ''t'') (Some PHARMACIST) True (Ok ())
      (Ok (Some (sample_detail 12 DISPENSING))) (Ok [sample_summary 13 RECEIVED]) FetchRejects
      sample_split_panel)) = Some 12 \<and>
   snd (handleAdvanceStatus (Some ''t'') (Some PHARMACIST) True (Ok ())
      (Ok (Some (sample_detail 12 DISPENSING))) (Ok [sample_summary 13 RECEIVED]) FetchRejects
      sample_split_panel) =
     [Fetch (status_update (Some ''t'') 12 DISPENSING), Fetch (detail_request (Some ''t'') 12),
      Fetch (list_request (Some ''t'')), StatusUpdated] \<and>
   selectedId (fst (handleAdvanceStatus (Some ''t'') (Some PHARMACIST) True (Ok ())
      (Ok (Some (sample_detail 12 DISPENSING)))
      (Ok [sample_summary 14 RECEIVED, sample_summary 12 DISPENSING]) FetchRejects
      sample_split_panel)) = Some 14 \<and>
   selectedId (fst (loadPrescriptions (Some ''t'') (sample_panel 12 RECEIVED)
      (Ok [sample_summary 13 RECEIVED]) FetchRejects (sample_panel 12 RECEIVED))) = Some 13"
  by (simp add: sample_split_panel_def sample_panel_def sample_detail_def sample_summary_def
        handleAdvanceStatus_def loadPrescriptions_def selectPrescription_def apiRequest_def
        no_token_def getNextStatus_values caught_message_def status_update_def
        detail_request_def list_request_def)

text \<open>
  C3 (as amended). With a role other than PHARMACIST the advance handler returns at its first
  guard: no event, so no request, and the state is returned as it was, so no message is set
  and nothing signals the rejection.
\<close>

theorem advance_other_role_is_silent:
  assumes "role \<noteq> Some PHARMACIST"
  shows "handleAdvanceStatus tok role cb po d1 lo d2 st = (st, [])"
  using assms by (simp add: handleAdvanceStatus_def split: option.splits)

theorem advance_other_role_is_silent_witness:
  "Some DOCTOR \<noteq> Some PHARMACIST \<and>
   handleAdvanceStatus (Some ''t'') (Some DOCTOR) True (Ok ()) (Ok (Some (sample_detail 12 DISPENSING)))
     (Ok [sample_summary 12 DISPENSING]) FetchRejects (sample_panel 12 RECEIVED) =
   (sample_panel 12 RECEIVED, [])"
proof -
  have r: "Some DOCTOR \<noteq> Some PHARMACIST" by simp
  show ?thesis
    using r advance_other_role_is_silent [OF r, of "Some ''t''" True "Ok ()"
      "Ok (Some (sample_detail 12 DISPENSING))" "Ok [sample_summary 12 DISPENSING]" FetchRejects
      "sample_panel 12 RECEIVED"]
    by simp
qed

text \<open>
  C3 as stated fails: a doctor with a token, looking at a RECEIVED prescription with no
  message on screen, invokes advance; afterwards there is still no message.
\<close>

theorem advance_other_role_counterexample:
  "message (fst (handleAdvanceStatus (Some ''t'') (Some DOCTOR) True (Ok ())
     (Ok (Some (sample_detail 12 DISPENSING))) (Ok [sample_summary 12 DISPENSING]) FetchRejects
     (sample_panel 12 RECEIVED))) = None"
  by (simp add: handleAdvanceStatus_def sample_panel_def)

text \<open>
  C4 (as amended). With no pharmacy selected (the id is null or 0) or with an empty
  prescription id, the dispatch handler returns at its guard: no event, so no request, and
  the state is returned as it was, so no message is set.
\<close>

theorem dispatch_without_selection_is_silent:
  assumes "no_pharmacy (selectedPharmacyId st) \<or> dispatch_prescriptionId st = []"
  shows "handleDispatch tok role outcome st = (st, [])"
  using assms by (auto simp add: handleDispatch_def)

theorem dispatch_without_selection_is_silent_witness:
  "no_pharmacy (selectedPharmacyId (sample_search None ''12'')) \<and>
   handleDispatch (Some ''t'') (Some DOCTOR) (Ok ()) (sample_search None ''12'') =
     (sample_search None ''12'', []) \<and>
   dispatch_prescriptionId (sample_search (Some 7) []) = [] \<and>
   handleDispatch (Some ''t'') (Some DOCTOR) (Ok ()) (sample_search (Some 7) []) =
     (sample_search (Some 7) [], [])"
proof -
  have a: "no_pharmacy (selectedPharmacyId (sample_search None ''12''))"
    by (simp add: no_pharmacy_def sample_search_def)
  have b: "dispatch_prescriptionId (sample_search (Some 7) []) = []"
    by (simp add: sample_search_def)
  show ?thesis
    using a b
      dispatch_without_selection_is_silent [OF disjI1 [OF a], of "Some ''t''" "Some DOCTOR" "Ok ()"]
      dispatch_without_selection_is_silent [OF disjI2 [OF b], of "Some ''t''" "Some DOCTOR" "Ok ()"]
    by simp
qed

text \<open>
  C4 as stated fails: a doctor with a token and prescription id 12 typed in, but no pharmacy
  selected and no message on screen, invokes dispatch; afterwards there is still no message.
\<close>

theorem dispatch_without_selection_counterexample:
  "search_message (fst (handleDispatch (Some ''t'') (Some DOCTOR) (Ok ())
     (sample_search None ''12''))) = None"
  by (simp add: handleDispatch_def sample_search_def no_pharmacy_def)

text \<open>
  C5 (as amended). With a token, a detail fetch that throws (the fetch rejects, or the
  response is not ok) leaves the selected detail as it was and sets the message to the reason
  of the response, or to the fallback text when there is no response. The panel shows that
  message unless it is empty, which happens exactly for a JSON error body whose
  \<open>message\<close> field stringifies to the empty string. Nothing blocks a retry: the same call
  on the resulting state, answered ok, stores the answer. When the fetch is the one that a
  successful advance makes, the handler ends with the success text as its message, not with
  the reason. An ok answer never counts as a failure: it writes its payload to the selected
  detail and leaves the message alone, and the payload is \<open>null\<close> when the body cannot be
  read, so that answer clears the detail. A call of \<open>selectPrescription\<close> changes the
  selected detail only when the answer is ok.
\<close>

theorem detail_fetch_outcomes:
  assumes "\<not> no_token tok"
  shows "((\<forall>detail. outcome \<noteq> Ok detail) \<longrightarrow>
            selectedDetail (fst (selectPrescription tok i outcome st)) = selectedDetail st \<and>
            message (fst (selectPrescription tok i outcome st)) = Some (case outcome of NotOk s b \<Rightarrow> error_message (payload_of b) | _ \<Rightarrow> msg_detail_failed) \<and>
            visible_message (fst (selectPrescription tok i outcome st)) =
              (if (case outcome of NotOk s b \<Rightarrow> error_message (payload_of b) | _ \<Rightarrow> msg_detail_failed) = [] then None
               else Some (case outcome of NotOk s b \<Rightarrow> error_message (payload_of b) | _ \<Rightarrow> msg_detail_failed)) \<and>
            ((case outcome of NotOk s b \<Rightarrow> error_message (payload_of b) | _ \<Rightarrow> msg_detail_failed) = [] \<longleftrightarrow>
               (\<exists>s b fs m. outcome = NotOk s b \<and> payload_of b = JObj fs \<and>
                  js_field fs ''message'' = Some m \<and> js_String m = [])) \<and>
            selectedDetail (fst (selectPrescription tok i (Ok detail') (fst (selectPrescription tok i outcome st)))) = detail' \<and>
            (role = Some PHARMACIST \<and> selectedDetail st = Some d \<and>
             getNextStatus (status d) = Some n \<longrightarrow>
               message (fst (handleAdvanceStatus tok role cb (Ok u) outcome lo d2 st)) =
                 Some msg_status_updated)) \<and>
         selectPrescription tok i (Ok detail') st =
           (st\<lparr>selectedId := Some i, selectedDetail := detail'\<rparr>,
            [Fetch (detail_request tok i)]) \<and>
         (selectedDetail (fst (selectPrescription tok i outcome st)) \<noteq> selectedDetail st \<longrightarrow>
            (\<exists>detail. outcome = Ok detail \<and> selectedDetail (fst (selectPrescription tok i outcome st)) = detail))"
proof -
  have kept: "(\<forall>detail. outcome \<noteq> Ok detail) \<longrightarrow>
      selectedDetail (fst (selectPrescription tok i outcome st)) = selectedDetail st \<and>
      message (fst (selectPrescription tok i outcome st)) = Some (case outcome of NotOk s b \<Rightarrow> error_message (payload_of b) | _ \<Rightarrow> msg_detail_failed)"
    using assms
    by (cases outcome) (simp_all add: selectPrescription_def apiRequest_def caught_message_def)
  have shown: "(\<forall>detail. outcome \<noteq> Ok detail) \<longrightarrow>
      visible_message (fst (selectPrescription tok i outcome st)) =
        (if (case outcome of NotOk s b \<Rightarrow> error_message (payload_of b) | _ \<Rightarrow> msg_detail_failed) = [] then None
         else Some (case outcome of NotOk s b \<Rightarrow> error_message (payload_of b) | _ \<Rightarrow> msg_detail_failed))"
    using kept by (simp add: visible_message_def)
  have empty: "(case outcome of NotOk s b \<Rightarrow> error_message (payload_of b) | _ \<Rightarrow> msg_detail_failed) = [] \<longleftrightarrow>
      (\<exists>s b fs m. outcome = NotOk s b \<and> payload_of b = JObj fs \<and>
         js_field fs ''message'' = Some m \<and> js_String m = [])"
    by (cases outcome) (simp_all add: error_message_empty msg_detail_failed_nonempty)
  have retry: "selectedDetail (fst (selectPrescription tok i (Ok detail') (fst (selectPrescription tok i outcome st)))) = detail'"
    using assms by (simp add: selectPrescription_fst)
  have advance: "role = Some PHARMACIST \<and> selectedDetail st = Some d \<and>
      getNextStatus (status d) = Some n \<longrightarrow>
      message (fst (handleAdvanceStatus tok role cb (Ok u) outcome lo d2 st)) =
        Some msg_status_updated"
    using assms advance_state [of tok st d n cb u outcome lo d2] by auto
  have ok: "selectPrescription tok i (Ok detail') st =
      (st\<lparr>selectedId := Some i, selectedDetail := detail'\<rparr>, [Fetch (detail_request tok i)])"
    using assms by (simp add: selectPrescription_def apiRequest_def detail_request_def)
  have only: "selectedDetail (fst (selectPrescription tok i outcome st)) \<noteq> selectedDetail st \<longrightarrow>
      (\<exists>detail. outcome = Ok detail \<and> selectedDetail (fst (selectPrescription tok i outcome st)) = detail)"
    using assms by (cases outcome) (simp_all add: selectPrescription_fst)
  from kept shown empty retry advance ok only show ?thesis
    by blast
qed

theorem detail_fetch_outcomes_witness:
  "\<not> no_token (Some ''t'') \<and>
   selectedDetail (sample_panel 12 RECEIVED) = Some (sample_detail 12 RECEIVED) \<and>
   getNextStatus (status (sample_detail 12 RECEIVED)) = Some DISPENSING \<and>
   selectedDetail (fst (selectPrescription (Some ''t'') 13
      (NotOk 404 (JsonBody (Some (JObj [(''message'', JStr ''not found'')]))))
      (sample_panel 12 RECEIVED))) = Some (sample_detail 12 RECEIVED) \<and>
   message (fst (selectPrescription (Some ''t'') 13
      (NotOk 404 (JsonBody (Some (JObj [(''message'', JStr ''not found'')]))))
      (sample_panel 12 RECEIVED))) = Some ''not found'' \<and>
   visible_message (fst (selectPrescription (Some ''t'') 13
      (NotOk 404 (JsonBody (Some (JObj [(''message'', JStr ''not found'')]))))
      (sample_panel 12 RECEIVED))) = Some ''not found'' \<and>
   selectedDetail (fst (selectPrescription (Some ''t'') 13 (Ok (Some (sample_detail 13 RECEIVED)))
      (fst (selectPrescription (Some ''t'') 13
         (NotOk 404 (JsonBody (Some (JObj [(''message'', JStr ''not found'')]))))
         (sample_panel 12 RECEIVED))))) = Some (sample_detail 13 RECEIVED) \<and>
   message (fst (handleAdvanceStatus (Some ''t'') (Some PHARMACIST) True (Ok ())
      (NotOk 404 (JsonBody (Some (JObj [(''message'', JStr ''not found'')]))))
      FetchRejects FetchRejects (sample_panel 12 RECEIVED))) = Some msg_status_updated"
proof -
  have t: "\<not> no_token (Some ''t'')" by (simp add: no_token_def)
  have d: "selectedDetail (sample_panel 12 RECEIVED) = Some (sample_detail 12 RECEIVED)"
    by (simp add: sample_panel_def)
  have n: "getNextStatus (status (sample_detail 12 RECEIVED)) = Some DISPENSING"
    by (simp add: sample_detail_def getNextStatus_values)
  have r: "error_message (payload_of
      (JsonBody (Some (JObj [(''message'', JStr ''not found'')])))) = ''not found''"
    by (simp add: error_message_def payload_of_def js_field_def)
  note inst = detail_fetch_outcomes [OF t, where outcome =
      "NotOk 404 (JsonBody (Some (JObj [(''message'', JStr ''not found'')])))"
      and i = 13 and st = "sample_panel 12 RECEIVED"
      and detail' = "Some (sample_detail 13 RECEIVED)" and role = "Some PHARMACIST"
      and d = "sample_detail 12 RECEIVED" and n = DISPENSING and cb = True and u = "()"
      and lo = FetchRejects and ?d2.0 = FetchRejects]
  show ?thesis
    using t d n r inst by simp
qed

text \<open>
  C5 as stated fails in three ways. The detail fetch is answered ok with a body that cannot
  be read: the detail of prescription 12, loaded before, is cleared, and no message is set.
  The detail fetch of a successful advance is answered 500 with the text \<open>boom\<close>: the
  handler ends with the success text as its message. The detail fetch is answered 500 with
  the JSON body \<open>{"message": ""}\<close>: the message is the empty string and the panel shows
  nothing.
\<close>

theorem detail_fetch_counterexample:
  "selectedDetail (sample_panel 12 RECEIVED) = Some (sample_detail 12 RECEIVED) \<and>
   selectedDetail (fst (selectPrescription (Some ''t'') 12 (Ok None)
      (sample_panel 12 RECEIVED))) = None \<and>
   message (fst (selectPrescription (Some ''t'') 12 (Ok None) (sample_panel 12 RECEIVED))) = None \<and>
   message (fst (handleAdvanceStatus (Some ''t'') (Some PHARMACIST) True (Ok ())
      (NotOk 500 (TextBody (Some ''boom''))) (Ok [sample_summary 12 DISPENSING]) FetchRejects
      (sample_panel 12 RECEIVED))) = Some msg_status_updated \<and>
   msg_status_updated \<noteq> ''boom'' \<and>
   visible_message (fst (selectPrescription (Some ''t'') 13
      (NotOk 500 (JsonBody (Some (JObj [(''message'', JStr [])])))) (sample_panel 12 RECEIVED))) =
     None"
  by (simp add: sample_panel_def sample_detail_def sample_summary_def
        handleAdvanceStatus_def loadPrescriptions_def selectPrescription_def apiRequest_def
        no_token_def getNextStatus_values caught_message_def visible_message_def
        error_message_def payload_of_def js_field_def msg_status_updated_def)

text \<open>
  C6 (as amended). A doctor with a token, a selected pharmacy \<open>p\<close> and a prescription id
  typed in dispatches, and the remote system answers ok. The handler makes exactly one
  request, the POST to the dispatch path of that prescription with \<open>pharmacyId = p\<close> in
  its body, shows the success message and clears the prescription id field. The events hold
  no pending-count signal: the search panel has no such callback. The change of status and
  the attachment of the pharmacy are the remote system's.
\<close>

theorem dispatch_success_effects:
  assumes "\<not> search_disabled tok role" and "selectedPharmacyId st = Some p" and "p \<noteq> 0"
    and "dispatch_prescriptionId st \<noteq> []"
  shows "handleDispatch tok role (Ok u) st =
           (st\<lparr>dispatch_prescriptionId := [], search_message := Some msg_dispatched,
                search_loading := False\<rparr>,
            [Fetch (dispatch_request tok (dispatch_prescriptionId st) p)]) \<and>
         StatusUpdated \<notin> set (snd (handleDispatch tok role (Ok u) st))"
  using assms
  by (simp add: handleDispatch_def apiRequest_def no_pharmacy_def dispatch_request_def)

theorem dispatch_success_effects_witness:
  "\<not> search_disabled (Some ''t'') (Some DOCTOR) \<and>
   selectedPharmacyId (sample_search (Some 7) ''12'') = Some 7 \<and> (7::int) \<noteq> 0 \<and>
   dispatch_prescriptionId (sample_search (Some 7) ''12'') \<noteq> [] \<and>
   handleDispatch (Some ''t'') (Some DOCTOR) (Ok ()) (sample_search (Some 7) ''12'') =
     ((sample_search (Some 7) [])\<lparr>search_message := Some msg_dispatched\<rparr>,
      [Fetch (dispatch_request (Some ''t'') ''12'' 7)])"
proof -
  have a: "\<not> search_disabled (Some ''t'') (Some DOCTOR)"
    by (simp add: search_disabled_def no_token_def)
  have b: "selectedPharmacyId (sample_search (Some 7) ''12'') = Some 7"
    by (simp add: sample_search_def)
  have c: "(7::int) \<noteq> 0" by simp
  have d: "dispatch_prescriptionId (sample_search (Some 7) ''12'') \<noteq> []"
    by (simp add: sample_search_def)
  show ?thesis
    using a b c d dispatch_success_effects [OF a b c d, of "()"]
    by (simp add: sample_search_def)
qed

text \<open>
  C6 as stated fails: a doctor dispatches prescription 12 to pharmacy 7 and the remote system
  answers ok; the events of the handler are the one POST and nothing else, so no
  pending-count signal fires.
\<close>

theorem dispatch_signal_counterexample:
  "snd (handleDispatch (Some ''t'') (Some DOCTOR) (Ok ()) (sample_search (Some 7) ''12'')) =
     [Fetch (dispatch_request (Some ''t'') ''12'' 7)] \<and>
   StatusUpdated \<notin> set (snd (handleDispatch (Some ''t'') (Some DOCTOR) (Ok ())
     (sample_search (Some 7) ''12'')))"
  by (simp add: handleDispatch_def apiRequest_def no_pharmacy_def dispatch_request_def
        search_disabled_def no_token_def sample_search_def)







text \<open>
  C9 (as amended). A search that makes its request (a keyword is typed, the panel is enabled)
  and is answered ok with the list \<open>data\<close> replaces the results. With an empty list
  the selected pharmacy id is left as it was; so when none was selected before, none is
  selected after, and a dispatch on the resulting state returns at its guard without a
  request. With a non-empty list the selected pharmacy id becomes the id of the first result.
\<close>

theorem search_selection:
  assumes "keyword st \<noteq> []" and "\<not> search_disabled tok role"
  shows "results (fst (handleSearch tok role (Ok data) st)) = data \<and>
         (data = [] \<longrightarrow>
            selectedPharmacyId (fst (handleSearch tok role (Ok data) st)) = selectedPharmacyId st \<and>
            (selectedPharmacyId st = None \<longrightarrow>
               handleDispatch tok role outcome (fst (handleSearch tok role (Ok data) st)) =
                 (fst (handleSearch tok role (Ok data) st), []))) \<and>
         (data \<noteq> [] \<longrightarrow>
            selectedPharmacyId (fst (handleSearch tok role (Ok data) st)) =
              Some (pharmacy_id (hd data)))"
  using assms
  by (cases data)
     (simp_all add: handleSearch_def handleDispatch_def apiRequest_def no_pharmacy_def)

theorem search_selection_witness:
  "keyword (sample_search None ''12'') \<noteq> [] \<and>
   \<not> search_disabled (Some ''t'') (Some DOCTOR) \<and>
   selectedPharmacyId (sample_search None ''12'') = None \<and>
   selectedPharmacyId (fst (handleSearch (Some ''t'') (Some DOCTOR) (Ok [])
      (sample_search None ''12''))) = None \<and>
   handleDispatch (Some ''t'') (Some DOCTOR) (Ok ())
      (fst (handleSearch (Some ''t'') (Some DOCTOR) (Ok []) (sample_search None ''12''))) =
     (fst (handleSearch (Some ''t'') (Some DOCTOR) (Ok []) (sample_search None ''12'')), []) \<and>
   selectedPharmacyId (fst (handleSearch (Some ''t'') (Some DOCTOR)
      (Ok [sample_pharmacy 7, sample_pharmacy 8]) (sample_search None ''12''))) = Some 7"
proof -
  have k: "keyword (sample_search None ''12'') \<noteq> []"
    by (simp add: sample_search_def)
  have e: "\<not> search_disabled (Some ''t'') (Some DOCTOR)"
    by (simp add: search_disabled_def no_token_def)
  have n: "selectedPharmacyId (sample_search None ''12'') = None"
    by (simp add: sample_search_def)
  have p: "pharmacy_id (sample_pharmacy 7) = 7"
    by (simp add: sample_pharmacy_def)
  show ?thesis
    using k e n p
      search_selection [OF k e, of "[]" "Ok ()"]
      search_selection [OF k e, of "[sample_pharmacy 7, sample_pharmacy 8]" "Ok ()"]
    by simp
qed

text \<open>
  C9 as stated fails. A doctor has pharmacy 7 selected from an earlier search and
  prescription id 12 typed in, and searches again; the search is answered ok with no result.
  The result list is now empty but pharmacy 7 is still selected, and a dispatch is not
  blocked: it sends the POST for prescription 12 to pharmacy 7.
\<close>

theorem search_selection_counterexample:
  "results (fst (handleSearch (Some ''t'') (Some DOCTOR) (Ok [])
      ((sample_search (Some 7) ''12'')\<lparr>results := [sample_pharmacy 7]\<rparr>))) = [] \<and>
   selectedPharmacyId (fst (handleSearch (Some ''t'') (Some DOCTOR) (Ok [])
      ((sample_search (Some 7) ''12'')\<lparr>results := [sample_pharmacy 7]\<rparr>))) = Some 7 \<and>
   snd (handleDispatch (Some ''t'') (Some DOCTOR) (Ok ())
      (fst (handleSearch (Some ''t'') (Some DOCTOR) (Ok [])
         ((sample_search (Some 7) ''12'')\<lparr>results := [sample_pharmacy 7]\<rparr>)))) =
     [Fetch (dispatch_request (Some ''t'') ''12'' 7)]"
  by (simp add: handleSearch_def handleDispatch_def apiRequest_def search_disabled_def
        no_token_def no_pharmacy_def sample_search_def dispatch_request_def)

text \<open>
  C10. \<open>selectPrescription\<close> sets the selected id to the requested id whatever happens
  next, with or without a token and whatever the fetch is answered. With a token, when the
  fetch fails the selected detail is left as it was; so when the detail shown before was
  that of another prescription, the selected id and the id of the shown detail differ
  afterwards.
\<close>

theorem failed_select_splits_id_and_detail:
  "selectedId (fst (selectPrescription tok i outcome st)) = Some i \<and>
   (\<not> no_token tok \<and> (\<forall>detail. outcome \<noteq> Ok detail) \<longrightarrow>
      snd (selectPrescription tok i outcome st) = [Fetch (detail_request tok i)] \<and>
      selectedDetail (fst (selectPrescription tok i outcome st)) = selectedDetail st \<and>
      (\<forall>d. selectedDetail st = Some d \<and> prescriptionId d \<noteq> i \<longrightarrow>
         (\<exists>d'. selectedDetail (fst (selectPrescription tok i outcome st)) = Some d' \<and>
            Some (prescriptionId d') \<noteq> selectedId (fst (selectPrescription tok i outcome st)))))"
  by (cases outcome)
     (simp_all add: selectPrescription_def apiRequest_def detail_request_def Let_def)

theorem failed_select_splits_id_and_detail_witness:
  "\<not> no_token (Some ''t'') \<and>
   selectedDetail (sample_panel 12 RECEIVED) = Some (sample_detail 12 RECEIVED) \<and>
   prescriptionId (sample_detail 12 RECEIVED) \<noteq> 13 \<and>
   selectedId (fst (selectPrescription (Some ''t'') 13 FetchRejects (sample_panel 12 RECEIVED))) =
     Some 13 \<and>
   selectedDetail (fst (selectPrescription (Some ''t'') 13 FetchRejects (sample_panel 12 RECEIVED))) =
     Some (sample_detail 12 RECEIVED) \<and>
   (\<exists>d'. selectedDetail (fst (selectPrescription (Some ''t'') 13 FetchRejects
              (sample_panel 12 RECEIVED))) = Some d' \<and>
      Some (prescriptionId d') \<noteq>
        selectedId (fst (selectPrescription (Some ''t'') 13 FetchRejects (sample_panel 12 RECEIVED))))"
proof -
  have t: "\<not> no_token (Some ''t'')" by (simp add: no_token_def)
  have d: "selectedDetail (sample_panel 12 RECEIVED) = Some (sample_detail 12 RECEIVED)"
    by (simp add: sample_panel_def)
  have p: "prescriptionId (sample_detail 12 RECEIVED) \<noteq> 13"
    by (simp add: sample_detail_def)
  show ?thesis
    using t d p failed_select_splits_id_and_detail [of "Some ''t''" 13 FetchRejects
      "sample_panel 12 RECEIVED"]
    by simp
qed

end
